theory Spec2Isabelle
  imports Main "HOL-Library.Word"
begin

unbundle bit_operations_syntax

type_synonym byte = "8 word"

section \<open>The parser entry points (jsonparser.h, jsonparser.cpp)\<close>

subsection \<open>Status codes and the document\<close>

text \<open>
  Modelled from the spec: the header simdjson.h with the status enumeration is not among
  the sources. The spec lists the codes as stable integers in the order SUCCESS=0,
  CAPACITY, MEMALLOC, TAPE_ERROR, DEPTH_ERROR, STRING_ERROR, T_ATOM_ERROR,
  F_ATOM_ERROR, N_ATOM_ERROR, NUMBER_ERROR, UTF8_ERROR, UNINITIALIZED, EMPTY,
  UNESCAPED_CHARS, UNCLOSED_STRING, UNEXPECTED_ERROR. The functions return them
  as \<^verbatim>\<open>int\<close>.
\<close>

definition SUCCESS :: int where "SUCCESS = 0"
definition CAPACITY :: int where "CAPACITY = 1"
definition MEMALLOC :: int where "MEMALLOC = 2"
definition TAPE_ERROR :: int where "TAPE_ERROR = 3"
definition DEPTH_ERROR :: int where "DEPTH_ERROR = 4"
definition UNCLOSED_STRING :: int where "UNCLOSED_STRING = 14"
definition UNEXPECTED_ERROR :: int where "UNEXPECTED_ERROR = 15"

text \<open>
  The members of \<^verbatim>\<open>ParsedJson\<close> that the two source files read or write. The
  tape is a buffer of 64-bit words, the string arena a buffer of bytes
  (\<^verbatim>\<open>uint8_t\<close> and \<^verbatim>\<open>char\<close> are 8-bit words).

  Modelled from the spec: \<^verbatim>\<open>isValid()\<close> is defined in parsedjson.cpp, which is not
  among the sources. The spec: it is true iff the last parse completed with SUCCESS. The
  document keeps that as the flag \<open>isvalid\<close>, beside the recorded \<open>errorcode\<close>.
\<close>

record ParsedJson =
  bytecapacity :: nat
  depthcapacity :: nat
  tape :: "64 word list"
  string_buf :: "byte list"
  isvalid :: bool
  errorcode :: int

definition isValid :: "ParsedJson \<Rightarrow> bool" where
  "isValid pj = isvalid pj"

subsection \<open>The build, the host and the two stages\<close>

datatype instruction_set = avx2 | sse4_2 | neon | none

text \<open>An input buffer: the address \<^verbatim>\<open>buf\<close> and the bytes stored from there on.\<close>

record buffer =
  addr :: nat
  bytes :: "byte list"

text \<open>
  What the two files take from outside: the preprocessor symbols of the build, the
  constants of simddetection.h, the word \<^verbatim>\<open>detectHostSIMDExtensions()\<close> returns on
  this host, the page size, the allocator, and the two stages of the parser
  (\<^verbatim>\<open>find_structural_bits<T>\<close> and \<^verbatim>\<open>unified_machine<T>\<close>), which return a status and
  leave the document changed. None of them is defined in the two files, so each is a
  parameter.
  \<open>SSE4_2_defined\<close> stands for
  \<^verbatim>\<open>defined(__SSE4_2__) || (defined(_MSC_VER) && defined(_M_AMD64))\<close> and
  \<open>NEON_defined\<close> for \<^verbatim>\<open>defined(__ARM_NEON) || (defined(_MSC_VER) && defined(_M_ARM64))\<close>.
\<close>

record platform =
  AVX2_defined :: bool
  SSE4_2_defined :: bool
  NEON_defined :: bool
  ALLOW_SAME_PAGE_BUFFER_OVERRUN :: bool
  SIMDExtension_AVX2 :: "32 word"
  SIMDExtension_AVX :: "32 word"
  SIMDExtension_SSE :: "32 word"
  SIMDExtension_NEON :: "32 word"
  detectHostSIMDExtensions :: "32 word"
  pagesize :: nat
  SIMDJSON_PADDING :: nat
  allocate_padded_buffer :: "nat \<Rightarrow> nat option"
  find_structural_bits :: "instruction_set \<Rightarrow> buffer \<Rightarrow> nat \<Rightarrow> ParsedJson \<Rightarrow> int \<times> ParsedJson"
  unified_machine :: "instruction_set \<Rightarrow> buffer \<Rightarrow> nat \<Rightarrow> ParsedJson \<Rightarrow> int \<times> ParsedJson"

subsection \<open>find_best_supported_implementation\<close>

text \<open>
  The body is selected by the preprocessor: the x86 tests when \<^verbatim>\<open>__AVX2__\<close> or
  \<^verbatim>\<open>__SSE4_2__\<close> is defined, else the ARM test when NEON is. A C condition is
  true when its value is not zero. The x86 tests use \<^verbatim>\<open>&\<close>; the ARM test is written
  with \<^verbatim>\<open>|\<close>.
\<close>

definition find_best_supported_implementation :: "platform \<Rightarrow> instruction_set" where
  "find_best_supported_implementation P =
     (let available_implementations = detectHostSIMDExtensions P in
      if AVX2_defined P \<or> SSE4_2_defined P then
        (if AVX2_defined P \<and> (available_implementations AND SIMDExtension_AVX2 P) \<noteq> 0
         then avx2
         else if SSE4_2_defined P \<and>
                 ((available_implementations AND SIMDExtension_AVX P) \<noteq> 0 \<or>
                  (available_implementations AND SIMDExtension_SSE P) \<noteq> 0)
         then sse4_2
         else none)
      else if NEON_defined P then
        (if (available_implementations OR SIMDExtension_NEON P) \<noteq> 0 then neon else none)
      else none)"

subsection \<open>json_parse_implementation\<close>

text \<open>
  The calls a parse makes, in order: the allocation and copy of the padded buffer, the
  two stages, and the release of the copy.
\<close>

datatype event = Alloc | Stage1 | Stage2 | Free

text \<open>
  The condition under which the input is copied when \<^verbatim>\<open>reallocifneeded\<close> holds:
  with \<^verbatim>\<open>ALLOW_SAME_PAGE_BUFFER_OVERRUN\<close> the page test on the address
  \<^verbatim>\<open>buf + len - 1\<close> (pointer arithmetic on 64 bits), and \<^verbatim>\<open>true\<close> without it.
\<close>

definition copy_condition :: "platform \<Rightarrow> buffer \<Rightarrow> nat \<Rightarrow> bool" where
  "copy_condition P buf len =
     (if ALLOW_SAME_PAGE_BUFFER_OVERRUN P
      then ((addr buf + len + 2 ^ 64 - 1) mod 2 ^ 64) mod pagesize P + SIMDJSON_PADDING P
             < pagesize P
      else True)"

text \<open>
  Lines 152 to 159: stage 1, then stage 2 unless stage 1 failed. \<open>reallocated\<close> is the
  local flag of the source, \<open>tr\<close> the calls made so far.
\<close>

definition run_stages ::
  "platform \<Rightarrow> instruction_set \<Rightarrow> buffer \<Rightarrow> nat \<Rightarrow> ParsedJson \<Rightarrow> bool \<Rightarrow> event list
     \<Rightarrow> int \<times> ParsedJson \<times> event list" where
  "run_stages P T buf len pj reallocated tr =
     (case find_structural_bits P T buf len pj of
        (stage1_is_ok, pj1) \<Rightarrow>
          if stage1_is_ok \<noteq> SUCCESS
          then (stage1_is_ok, pj1\<lparr>errorcode := stage1_is_ok\<rparr>, tr @ [Stage1])
          else (case unified_machine P T buf len pj1 of
                  (res, pj2) \<Rightarrow>
                    (res, pj2, tr @ [Stage1, Stage2] @ (if reallocated then [Free] else []))))"

text \<open>
  The template \<^verbatim>\<open>json_parse_implementation<T>\<close>. The result is the returned status,
  the document as the call leaves it, and the calls made.
\<close>

definition json_parse_implementation ::
  "platform \<Rightarrow> instruction_set \<Rightarrow> buffer \<Rightarrow> nat \<Rightarrow> ParsedJson \<Rightarrow> bool
     \<Rightarrow> int \<times> ParsedJson \<times> event list" where
  "json_parse_implementation P T buf len pj reallocifneeded =
     (if bytecapacity pj < len then (CAPACITY, pj, [])
      else if reallocifneeded \<and> copy_condition P buf len then
        (case allocate_padded_buffer P len of
           None \<Rightarrow> (MEMALLOC, pj, [Alloc])
         | Some a \<Rightarrow>
             run_stages P T \<lparr>addr = a, bytes = take len (bytes buf)\<rparr> len pj True [Alloc])
      else run_stages P T buf len pj False [])"

subsection \<open>json_parse and its dispatcher\<close>

text \<open>
  \<^verbatim>\<open>json_parse_ptr\<close> is a global function pointer. It starts at
  \<^verbatim>\<open>json_parse_dispatch\<close>, which replaces it by the implementation it selects.
\<close>

datatype parse_ptr = Dispatch | Implementation instruction_set

text \<open>
  The \<^verbatim>\<open>switch\<close> of \<^verbatim>\<open>json_parse_dispatch\<close>: each case exists only in a build that
  defines its symbol; every other value reaches \<^verbatim>\<open>default\<close>.
\<close>

definition compiled_in :: "platform \<Rightarrow> instruction_set \<Rightarrow> bool" where
  "compiled_in P T =
     (case T of avx2 \<Rightarrow> AVX2_defined P
              | sse4_2 \<Rightarrow> SSE4_2_defined P
              | neon \<Rightarrow> NEON_defined P
              | none \<Rightarrow> False)"

definition json_parse_dispatch ::
  "platform \<Rightarrow> buffer \<Rightarrow> nat \<Rightarrow> ParsedJson \<Rightarrow> bool
     \<Rightarrow> (int \<times> ParsedJson \<times> event list) \<times> parse_ptr" where
  "json_parse_dispatch P buf len pj reallocifneeded =
     (let best_implementation = find_best_supported_implementation P in
      if compiled_in P best_implementation
      then (json_parse_implementation P best_implementation buf len pj reallocifneeded,
            Implementation best_implementation)
      else ((UNEXPECTED_ERROR, pj, []), Dispatch))"

text \<open>
  \<^verbatim>\<open>json_parse\<close> calls through the pointer. The second component of the result is the
  pointer after the call.
\<close>

definition json_parse ::
  "platform \<Rightarrow> parse_ptr \<Rightarrow> buffer \<Rightarrow> nat \<Rightarrow> ParsedJson \<Rightarrow> bool
     \<Rightarrow> (int \<times> ParsedJson \<times> event list) \<times> parse_ptr" where
  "json_parse P json_parse_ptr buf len pj reallocifneeded =
     (case json_parse_ptr of
        Dispatch \<Rightarrow> json_parse_dispatch P buf len pj reallocifneeded
      | Implementation T \<Rightarrow>
          (json_parse_implementation P T buf len pj reallocifneeded, Implementation T))"

text \<open>The buffer that reaches stage 1, when one does: the copy or the input itself.\<close>

definition stage1_input :: "platform \<Rightarrow> buffer \<Rightarrow> nat \<Rightarrow> bool \<Rightarrow> buffer option" where
  "stage1_input P buf len reallocifneeded =
     (if reallocifneeded \<and> copy_condition P buf len
      then map_option (\<lambda>a. \<lparr>addr = a, bytes = take len (bytes buf)\<rparr>) (allocate_padded_buffer P len)
      else Some buf)"

section \<open>The iterator (src/unnamed/part_000)\<close>

subsection \<open>State and construction\<close>

text \<open>
  A character constant of the source, as the byte it denotes.
\<close>

abbreviation (input) ch :: "char \<Rightarrow> byte" where
  "ch c \<equiv> of_char c"

text \<open>
  The members of \<^verbatim>\<open>ParsedJson::iterator\<close>. The member \<^verbatim>\<open>pj\<close> is a reference to
  the document and never changes; \<open>depthindex\<close> holds the entries of the array the member
  \<^verbatim>\<open>depthindex\<close> points to.
\<close>

record scopeindex_t =
  start_of_scope :: nat
  scope_type :: byte

record iterator =
  depth :: nat
  location :: nat
  tape_length :: nat
  current_type :: byte
  current_val :: "64 word"
  depthindex :: "scopeindex_t list"

text \<open>
  The exceptions the file throws or lets through: its own \<^verbatim>\<open>InvalidJSON\<close>, which
  is constructed without arguments, and the two that \<^verbatim>\<open>std::stoi\<close> throws.
\<close>

datatype exn = InvalidJSON | Invalid_argument | Out_of_range

text \<open>
  Modelled from the spec: \<^verbatim>\<open>JSONVALUEMASK\<close> is declared in common_defs.h, which is
  not among the sources. The spec puts the tag of a tape word in its high byte and the
  payload in its low 56 bits.
\<close>

definition JSONVALUEMASK :: "64 word" where
  "JSONVALUEMASK = 0xFFFFFFFFFFFFFF"

text \<open>
  The constructor (lines 37 to 63). It throws when the document is not valid, and when
  the first tape word is not a root. An access outside the tape or outside the fresh
  scope array is undefined in C++; the model reports it as \<open>Out_of_bounds\<close>. The entries
  of the fresh array that the constructor does not write are indeterminate in C++ and
  zero here.
\<close>

datatype construction = Constructed iterator | Throws exn | Out_of_bounds

definition iterator_ctor :: "ParsedJson \<Rightarrow> construction" where
  "iterator_ctor pj =
     (if \<not> isValid pj then Throws InvalidJSON
      else if depthcapacity pj < 1 \<or> length (tape pj) < 1 then Out_of_bounds
      else
        let depthindex0 = replicate (depthcapacity pj) \<lparr>start_of_scope = 0, scope_type = 0\<rparr>;
            current_val0 = tape pj ! 0;
            current_type0 = (ucast (drop_bit 56 current_val0) :: byte);
            depthindex1 = depthindex0[0 := \<lparr>start_of_scope = 0, scope_type = current_type0\<rparr>]
        in
          if current_type0 = ch CHR ''r'' then
            (let tape_length0 = unat (current_val0 AND JSONVALUEMASK) in
             if 1 < tape_length0 then
               (if depthcapacity pj < 2 \<or> length (tape pj) < 2 then Out_of_bounds
                else
                  let current_val1 = tape pj ! 1;
                      current_type1 = (ucast (drop_bit 56 current_val1) :: byte)
                  in Constructed
                       \<lparr>depth = 1, location = 1, tape_length = tape_length0,
                        current_type = current_type1, current_val = current_val1,
                        depthindex =
                          depthindex1[1 := \<lparr>start_of_scope = 1, scope_type = current_type1\<rparr>]\<rparr>)
             else Constructed
                    \<lparr>depth = 0, location = 1, tape_length = tape_length0,
                     current_type = current_type0, current_val = current_val0,
                     depthindex = depthindex1\<rparr>)
          else Throws InvalidJSON)"

subsection \<open>The navigation that move_to drives\<close>

text \<open>
  \<^verbatim>\<open>move_to\<close> and \<^verbatim>\<open>relative_move_to\<close> call six other members of the iterator:
  \<^verbatim>\<open>rewind\<close>, \<^verbatim>\<open>is_object\<close>, \<^verbatim>\<open>is_array\<close>, \<^verbatim>\<open>down\<close>, \<^verbatim>\<open>next\<close> and
  \<^verbatim>\<open>move_to_key\<close>. They are defined in parsedjson.h, which is not among the sources,
  so the two functions take them as a parameter: each is a function on the iterator's
  state, and those that return \<^verbatim>\<open>bool\<close> return it with the new state.
\<close>

record navigation =
  rewind :: "iterator \<Rightarrow> iterator"
  is_object :: "iterator \<Rightarrow> bool"
  is_array :: "iterator \<Rightarrow> bool"
  down :: "iterator \<Rightarrow> bool \<times> iterator"
  next_it :: "iterator \<Rightarrow> bool \<times> iterator"
  move_to_key :: "byte list \<Rightarrow> iterator \<Rightarrow> bool \<times> iterator"

subsection \<open>Characters and std::stoi\<close>

text \<open>
  A pointer argument \<^verbatim>\<open>const char *pointer\<close> is the memory it points to: a function
  from the index to the byte stored there. The source reads \<^verbatim>\<open>pointer[offset+1]\<close>
  up to and beyond index \<^verbatim>\<open>length\<close>, so the model does not cut the memory at
  \<^verbatim>\<open>length\<close>. The source's variable \<^verbatim>\<open>length\<close> is \<open>len\<close> here.

  A comparison such as \<^verbatim>\<open>pointer[offset+1] <= 0x1F\<close> promotes the \<^verbatim>\<open>char\<close> to
  \<^verbatim>\<open>int\<close>. Whether plain \<^verbatim>\<open>char\<close> is signed is the platform's choice (signed on
  x86-64, unsigned on ARM Linux), so it is the parameter \<open>char_signed\<close>.
\<close>

definition char_value :: "bool \<Rightarrow> byte \<Rightarrow> int" where
  "char_value char_signed c = (if char_signed then sint c else uint c)"

text \<open>
  The test of line 213 on a byte of an array index:
  \<^verbatim>\<open>pointer[offset] < '0' || pointer[offset] > '9'\<close>.
\<close>

definition not_a_digit :: "bool \<Rightarrow> byte \<Rightarrow> bool" where
  "not_a_digit char_signed c =
     (char_value char_signed c < 0x30 \<or> 0x39 < char_value char_signed c)"

text \<open>
  \<^verbatim>\<open>std::stoi(str, nullptr, base)\<close> of the C++ library, which converts with
  \<^verbatim>\<open>strtol\<close>: leading white space is skipped, then an optional sign, then for base 16
  an optional \<^verbatim>\<open>0x\<close> that a hexadecimal digit follows, then the longest run of digits
  of the base. No digit: \<^verbatim>\<open>std::invalid_argument\<close>. A value outside the range of a
  32-bit \<^verbatim>\<open>int\<close>: \<^verbatim>\<open>std::out_of_range\<close>. A zero byte is no digit, so the
  conversion stops at it as \<^verbatim>\<open>strtol\<close> does.
\<close>

definition isspace :: "byte \<Rightarrow> bool" where
  "isspace c = (c = 0x20 \<or> (0x09 \<le> c \<and> c \<le> 0x0D))"

definition digit_value :: "byte \<Rightarrow> nat option" where
  "digit_value c =
     (if 0x30 \<le> c \<and> c \<le> 0x39 then Some (unat c - 0x30)
      else if 0x61 \<le> c \<and> c \<le> 0x7A then Some (unat c - 0x61 + 10)
      else if 0x41 \<le> c \<and> c \<le> 0x5A then Some (unat c - 0x41 + 10)
      else None)"

fun leading_digits :: "nat \<Rightarrow> byte list \<Rightarrow> nat list" where
  "leading_digits base [] = []"
| "leading_digits base (c # cs) =
     (case digit_value c of
        None \<Rightarrow> []
      | Some d \<Rightarrow> if d < base then d # leading_digits base cs else [])"

definition skip_sign :: "byte list \<Rightarrow> bool \<times> byte list" where
  "skip_sign s =
     (case s of
        [] \<Rightarrow> (False, [])
      | c # cs \<Rightarrow> if c = ch CHR ''-'' then (True, cs)
                  else if c = ch CHR ''+'' then (False, cs)
                  else (False, s))"

definition skip_prefix :: "nat \<Rightarrow> byte list \<Rightarrow> byte list" where
  "skip_prefix base s =
     (case s of
        z # x # h # cs \<Rightarrow>
          if base = 16 \<and> z = ch CHR ''0'' \<and> (x = ch CHR ''x'' \<or> x = ch CHR ''X'')
             \<and> leading_digits 16 [h] \<noteq> []
          then h # cs else s
      | _ \<Rightarrow> s)"

definition stoi :: "nat \<Rightarrow> byte list \<Rightarrow> exn + int" where
  "stoi base s =
     (case skip_sign (dropWhile isspace s) of
        (negative, s1) \<Rightarrow>
          (case leading_digits base (skip_prefix base s1) of
             [] \<Rightarrow> Inl Invalid_argument
           | d # ds \<Rightarrow>
               let magnitude = foldl (\<lambda>a x. a * int base + int x) 0 (d # ds);
                   r = (if negative then - magnitude else magnitude)
               in if r < - (2 ^ 31) \<or> 2 ^ 31 - 1 < r then Inl Out_of_range else Inr r))"

subsection \<open>relative_move_to\<close>

text \<open>
  The loop of lines 208 to 243, which collects \<^verbatim>\<open>key_or_index\<close>. \<open>array\<close> is the
  value of \<^verbatim>\<open>is_array()\<close>, which the loop does not change. \<open>None\<close> is
  \<^verbatim>\<open>return false\<close>; otherwise the loop ends with the key and the offset it reached.
  After an escape at the last index the offset is \<open>len + 1\<close>.
\<close>

function key_loop ::
  "bool \<Rightarrow> bool \<Rightarrow> (nat \<Rightarrow> byte) \<Rightarrow> nat \<Rightarrow> nat \<Rightarrow> byte list \<Rightarrow> (byte list \<times> nat) option" where
  "key_loop char_signed array pointer len offset key_or_index =
     (if offset < len then
        (if pointer offset = ch CHR ''/'' then Some (key_or_index, offset)
         else if array \<and> not_a_digit char_signed (pointer offset) then None
         else if pointer offset = ch CHR ''~'' \<and> pointer (offset + 1) = ch CHR ''1''
           then key_loop char_signed array pointer len (offset + 2) (key_or_index @ [ch CHR ''/''])
         else if pointer offset = ch CHR ''~'' \<and> pointer (offset + 1) = ch CHR ''0''
           then key_loop char_signed array pointer len (offset + 2) (key_or_index @ [ch CHR ''~''])
         else if pointer offset = 0x5C then
           (if pointer (offset + 1) = 0x5C \<or> pointer (offset + 1) = 0x22 \<or>
               char_value char_signed (pointer (offset + 1)) \<le> 0x1F
            then key_loop char_signed array pointer len (offset + 2)
                   (key_or_index @ [pointer (offset + 1)])
            else None)
         else key_loop char_signed array pointer len (offset + 1)
                (key_or_index @ [pointer offset]))
      else Some (key_or_index, offset))"
  by pat_completeness auto
termination
  by (relation "measure (\<lambda>(s, a, p, len, offset, k). len - offset)") auto

declare key_loop.simps [simp del]

text \<open>
  Lines 196 to 243: the token \<^verbatim>\<open>-\<close> of an array, which must end the pointer, or the
  loop from offset 1.
\<close>

definition first_token ::
  "bool \<Rightarrow> bool \<Rightarrow> (nat \<Rightarrow> byte) \<Rightarrow> nat \<Rightarrow> (byte list \<times> nat) option" where
  "first_token char_signed array pointer len =
     (if array \<and> pointer 1 = ch CHR ''-''
      then (if len \<noteq> 2 then None else Some ([ch CHR ''-''], len))
      else key_loop char_signed array pointer len 1 [])"

text \<open>
  \<^verbatim>\<open>while(next());\<close> of line 254 runs until \<^verbatim>\<open>next()\<close> returns false; nothing
  in the two functions bounds it, so not returning is the value \<open>None\<close>. The loop of
  lines 260 to 264 makes at most \<^verbatim>\<open>index\<close> calls; its result says whether
  \<^verbatim>\<open>i == index\<close> at its end.
\<close>

partial_function (option) while_next :: "navigation \<Rightarrow> iterator \<Rightarrow> iterator option" where
  "while_next N it =
     (case next_it N it of (moved, it1) \<Rightarrow> if moved then while_next N it1 else Some it1)"

declare while_next.simps [code]

fun for_next :: "navigation \<Rightarrow> nat \<Rightarrow> iterator \<Rightarrow> bool \<times> iterator" where
  "for_next N 0 it = (True, it)"
| "for_next N (Suc n) it =
     (case next_it N it of (moved, it1) \<Rightarrow> if moved then for_next N n it1 else (False, it1))"

text \<open>
  How a call ends: it returns a truth value, it leaves by an exception, it reads past the
  pointer, or it does not end. Each of the first two comes with the state of the
  iterator at that moment.
\<close>

datatype outcome = Returned bool iterator | Thrown exn iterator | Overrun | Diverged

lemma key_loop_offset:
  "key_loop s a p n off k = Some (k', off') \<Longrightarrow> off \<le> off'"
proof (induction "n - off" arbitrary: off k rule: less_induct)
  case less
  show ?case
  proof (cases "off < n")
    case False
    with less.prems show ?thesis
      by (subst (asm) key_loop.simps) simp
  next
    case True
    have step1: "key_loop s a p n (Suc off) k2 = Some (k', off') \<Longrightarrow> off \<le> off'" for k2
      using less.hyps [of "Suc off" k2] True by fastforce
    have step2: "key_loop s a p n (Suc (Suc off)) k2 = Some (k', off') \<Longrightarrow> off \<le> off'" for k2
      using less.hyps [of "Suc (Suc off)" k2] True by fastforce
    from less.prems True show ?thesis
      by (subst (asm) key_loop.simps) (auto split: if_splits dest: step1 step2)
  qed
qed

lemma first_token_offset:
  "first_token s a p n = Some (k, off) \<Longrightarrow> 0 < n \<Longrightarrow> 0 < off"
  by (auto simp: first_token_def split: if_splits dest: key_loop_offset)

text \<open>
  \<^verbatim>\<open>relative_move_to\<close> (lines 186 to 272). The recursive call receives
  \<^verbatim>\<open>pointer+offset\<close> and \<^verbatim>\<open>length-offset\<close>. The subtraction is on
  \<^verbatim>\<open>uint32_t\<close>: when the loop ended at \<open>len + 1\<close> it wraps around to
  \<open>2 ^ 32 - 1\<close>, and the call reads the memory behind the pointer as if it were pointer
  text; that is \<open>Overrun\<close>. \<^verbatim>\<open>std::stoi\<close> is called outside any \<^verbatim>\<open>try\<close>, so its
  exceptions leave the function. Its \<^verbatim>\<open>int\<close> is converted to \<^verbatim>\<open>uint32_t\<close>.
\<close>

function relative_move_to ::
  "navigation \<Rightarrow> bool \<Rightarrow> (nat \<Rightarrow> byte) \<Rightarrow> nat \<Rightarrow> iterator \<Rightarrow> outcome" where
  "relative_move_to N char_signed pointer len it =
     (if len = 0 then Returned True it
      else if pointer 0 \<noteq> ch CHR ''/'' then Returned False it
      else
        (case first_token char_signed (is_array N it) pointer len of
           None \<Rightarrow> Returned False it
         | Some (key_or_index, offset) \<Rightarrow>
             if is_object N it then
               (case move_to_key N key_or_index it of
                  (found_key, it1) \<Rightarrow>
                    if found_key then
                      (if len < offset then Overrun
                       else relative_move_to N char_signed (\<lambda>i. pointer (offset + i))
                              (len - offset) it1)
                    else Returned False it1)
             else if is_array N it then
               (case down N it of
                  (went_down, it1) \<Rightarrow>
                    if went_down then
                      (if key_or_index = [ch CHR ''-''] then
                         (case while_next N it1 of
                            None \<Rightarrow> Diverged
                          | Some it2 \<Rightarrow> Returned True it2)
                       else
                         (case stoi 10 key_or_index of
                            Inl e \<Rightarrow> Thrown e it1
                          | Inr index \<Rightarrow>
                              (case for_next N (nat (index mod 2 ^ 32)) it1 of
                                 (reached, it2) \<Rightarrow>
                                   if reached then
                                     (if len < offset then Overrun
                                      else relative_move_to N char_signed
                                             (\<lambda>i. pointer (offset + i)) (len - offset) it2)
                                   else Returned False it2)))
                    else Returned False it1)
             else Returned False it))"
  by pat_completeness auto
termination
proof (relation "measure (\<lambda>(N, s, p, len, it). len)", goal_cases)
  case 1
  show ?case by simp
next
  case (2 N char_signed pointer len it x2 key_or_index offset)
  then have "first_token char_signed (is_array N it) pointer len = Some (key_or_index, offset)"
    by simp
  with 2 have "0 < offset" by (auto dest: first_token_offset)
  with 2 show ?case by simp
next
  case (3 N char_signed pointer len it x2 key_or_index offset)
  then have "first_token char_signed (is_array N it) pointer len = Some (key_or_index, offset)"
    by simp
  with 3 have "0 < offset" by (auto dest: first_token_offset)
  with 3 show ?case by simp
qed

declare relative_move_to.simps [simp del]

subsection \<open>move_to\<close>

text \<open>
  The loop of lines 134 to 155, which rewrites a fragment into \<^verbatim>\<open>new_pointer\<close>. Only
  \<^verbatim>\<open>std::invalid_argument\<close> is caught (\<^verbatim>\<open>return false\<close>); \<open>new_pointer\<close> holds
  the \<^verbatim>\<open>new_length\<close> bytes written so far. The \<^verbatim>\<open>int\<close> is stored into a
  \<^verbatim>\<open>char\<close>, which keeps its low 8 bits.
\<close>

datatype conversion = Converted "byte list" | Invalid_fragment | Uncaught exn

function fragment_loop :: "(nat \<Rightarrow> byte) \<Rightarrow> nat \<Rightarrow> nat \<Rightarrow> byte list \<Rightarrow> conversion" where
  "fragment_loop pointer len i new_pointer =
     (if i < len then
        (if pointer i = ch CHR ''%'' then
           (case stoi 16 [pointer (i + 1), pointer (i + 2)] of
              Inl e \<Rightarrow> if e = Invalid_argument then Invalid_fragment else Uncaught e
            | Inr fragment \<Rightarrow>
                fragment_loop pointer len (i + 3)
                  (new_pointer
                   @ (if fragment = 0x5C \<or> fragment = 0x22 \<or> fragment \<le> 0x1F then [0x5C] else [])
                   @ [word_of_int fragment]))
         else fragment_loop pointer len (i + 1) (new_pointer @ [pointer i]))
      else Converted new_pointer)"
  by pat_completeness auto
termination
  by (relation "measure (\<lambda>(p, len, i, out). len - i)") auto

declare fragment_loop.simps [simp del]

text \<open>
  Lines 160 to 183: the state is saved, the iterator rewound and the pointer resolved.
  When nothing was found, the five saved members are written back. The sixth,
  \<^verbatim>\<open>depthindex_s\<close>, is the saved pointer to the scope array, not a copy of its
  entries: writing it back leaves the entries as the search left them. An exception
  passes through without the write-back.
\<close>

definition search_from_root ::
  "navigation \<Rightarrow> bool \<Rightarrow> (nat \<Rightarrow> byte) \<Rightarrow> nat \<Rightarrow> iterator \<Rightarrow> outcome" where
  "search_from_root N char_signed pointer len it =
     (case relative_move_to N char_signed pointer len (rewind N it) of
        Returned found it1 \<Rightarrow>
          if \<not> found
          then Returned found
                 (it1\<lparr>depth := depth it, location := location it,
                      tape_length := tape_length it, current_type := current_type it,
                      current_val := current_val it, depthindex := depthindex it1\<rparr>)
          else Returned found it1
      | Thrown e it1 \<Rightarrow> Thrown e it1
      | Overrun \<Rightarrow> Overrun
      | Diverged \<Rightarrow> Diverged)"

text \<open>
  \<^verbatim>\<open>move_to\<close> (lines 128 to 184). \<^verbatim>\<open>new char[length]\<close> is not initialised: behind
  the bytes the loop wrote, the new pointer holds what the heap held, the parameter
  \<open>heap\<close>. The line that prints the pointer is left out.
\<close>

definition move_to ::
  "navigation \<Rightarrow> bool \<Rightarrow> (nat \<Rightarrow> byte) \<Rightarrow> (nat \<Rightarrow> byte) \<Rightarrow> nat \<Rightarrow> iterator \<Rightarrow> outcome" where
  "move_to N char_signed heap pointer len it =
     (if pointer 0 = ch CHR ''#'' then
        (case fragment_loop pointer len 1 [] of
           Invalid_fragment \<Rightarrow> Returned False it
         | Uncaught e \<Rightarrow> Thrown e it
         | Converted new_pointer \<Rightarrow>
             search_from_root N char_signed
               (\<lambda>i. if i < length new_pointer then new_pointer ! i else heap i)
               (length new_pointer) it)
      else search_from_root N char_signed pointer len it)"

section \<open>Samples: a navigation over the tape, documents, pointers and platforms\<close>

subsection \<open>Navigation over the tape\<close>

text \<open>
  Modelled from the spec: the members \<^verbatim>\<open>down\<close>, \<^verbatim>\<open>up\<close>, \<^verbatim>\<open>next\<close>,
  \<^verbatim>\<open>rewind\<close>, \<^verbatim>\<open>is_object\<close>, \<^verbatim>\<open>is_array\<close> and \<^verbatim>\<open>move_to_key\<close> of
  parsedjson.h, which is not among the sources. The spec: the tag of a slot is its high
  byte; an open slot's payload leads past its close (its example for \<^verbatim>\<open>[]\<close> is
  \<^verbatim>\<open>r, [(3), ](1), r\<close>); \<^verbatim>\<open>l\<close> and \<^verbatim>\<open>d\<close> take two slots; \<^verbatim>\<open>down()\<close> descends
  to the first child of a container and returns false if it is empty; \<^verbatim>\<open>up()\<close>
  ascends to the containing scope, false at the root; \<^verbatim>\<open>next()\<close> moves to the next
  sibling, false at the end; the scope stack records the tape index of each enclosing
  open (the constructor stores \<^verbatim>\<open>start_of_scope\<close> and \<^verbatim>\<open>scope_type\<close> at
  \<^verbatim>\<open>depthindex[depth]\<close>, and so does \<open>tape_down\<close>); \<^verbatim>\<open>move_to_key\<close> positions
  at the value whose key matches byte for byte. A string of the arena is a 4-byte
  little-endian length, then its bytes.
  This navigation is one instance of the parameter \<open>navigation\<close>. The general theorems
  hold for every instance; the concrete evaluations below use this one.
\<close>

definition tape_at :: "ParsedJson \<Rightarrow> nat \<Rightarrow> 64 word" where
  "tape_at pj i = (if i < length (tape pj) then tape pj ! i else 0)"

definition at_slot :: "ParsedJson \<Rightarrow> nat \<Rightarrow> iterator \<Rightarrow> iterator" where
  "at_slot pj i it =
     it\<lparr>location := i, current_val := tape_at pj i,
        current_type := ucast (drop_bit 56 (tape_at pj i))\<rparr>"

definition opens_scope :: "byte \<Rightarrow> bool" where
  "opens_scope t = (t = ch CHR ''['' \<or> t = ch CHR ''{'')"

definition closes_scope :: "byte \<Rightarrow> bool" where
  "closes_scope t = (t = ch CHR '']'' \<or> t = ch CHR ''}'')"

definition tape_is_object :: "iterator \<Rightarrow> bool" where
  "tape_is_object it = (current_type it = ch CHR ''{'')"

definition tape_is_array :: "iterator \<Rightarrow> bool" where
  "tape_is_array it = (current_type it = ch CHR ''['')"

definition tape_down :: "ParsedJson \<Rightarrow> iterator \<Rightarrow> bool \<times> iterator" where
  "tape_down pj it =
     (if tape_length it \<le> location it + 1 then (False, it)
      else if opens_scope (current_type it) then
        (if unat (current_val it AND JSONVALUEMASK) = location it + 2 then (False, it)
         else (True,
               at_slot pj (location it + 1)
                 (it\<lparr>depth := depth it + 1,
                     depthindex := (depthindex it)
                       [depth it + 1 := \<lparr>start_of_scope = location it + 1,
                                         scope_type = current_type it\<rparr>]\<rparr>)))
      else (False, it))"

definition tape_next :: "ParsedJson \<Rightarrow> iterator \<Rightarrow> bool \<times> iterator" where
  "tape_next pj it =
     (let npos = (if opens_scope (current_type it) then unat (current_val it AND JSONVALUEMASK)
                  else location it +
                       (if current_type it = ch CHR ''d'' \<or> current_type it = ch CHR ''l''
                        then 2 else 1))
      in if closes_scope (ucast (drop_bit 56 (tape_at pj npos))) then (False, it)
         else (True, at_slot pj npos it))"

definition tape_up :: "ParsedJson \<Rightarrow> iterator \<Rightarrow> bool \<times> iterator" where
  "tape_up pj it =
     (if depth it \<le> 1 \<or> length (depthindex it) \<le> depth it then (False, it)
      else (True,
            at_slot pj (start_of_scope (depthindex it ! depth it) - 1)
              (it\<lparr>depth := depth it - 1\<rparr>)))"

function tape_rewind :: "ParsedJson \<Rightarrow> iterator \<Rightarrow> iterator" where
  "tape_rewind pj it =
     (case tape_up pj it of (moved, it1) \<Rightarrow> if moved then tape_rewind pj it1 else it1)"
  by pat_completeness auto
termination
  by (relation "measure (\<lambda>(pj, it). depth it)")
     (auto simp: tape_up_def at_slot_def split: if_splits)

declare tape_rewind.simps [simp del]

definition get_string_length :: "ParsedJson \<Rightarrow> iterator \<Rightarrow> nat" where
  "get_string_length pj it =
     (let at = unat (current_val it AND JSONVALUEMASK);
          b = (\<lambda>k. if at + k < length (string_buf pj) then unat (string_buf pj ! (at + k)) else 0)
      in b 0 + 2 ^ 8 * b 1 + 2 ^ 16 * b 2 + 2 ^ 24 * b 3)"

definition get_string :: "ParsedJson \<Rightarrow> iterator \<Rightarrow> byte list" where
  "get_string pj it =
     take (get_string_length pj it)
       (drop (unat (current_val it AND JSONVALUEMASK) + 4) (string_buf pj))"

text \<open>
  Modelled from the spec: the search of \<^verbatim>\<open>move_to_key\<close> among the keys of the object,
  one key and one value at a time; \<open>n\<close> bounds the number of keys looked at (the caller
  passes the length of the tape).
\<close>

fun key_search :: "ParsedJson \<Rightarrow> byte list \<Rightarrow> nat \<Rightarrow> iterator \<Rightarrow> bool \<times> iterator" where
  "key_search pj key 0 it = (False, it)"
| "key_search pj key (Suc n) it =
     (if get_string_length pj it = length key \<and> get_string pj it = key
      then (True, at_slot pj (location it + 1) it)
      else (case tape_next pj (at_slot pj (location it + 1) it) of
              (moved, it1) \<Rightarrow>
                if moved then key_search pj key n it1 else (False, snd (tape_up pj it1))))"

definition tape_move_to_key :: "ParsedJson \<Rightarrow> byte list \<Rightarrow> iterator \<Rightarrow> bool \<times> iterator" where
  "tape_move_to_key pj key it =
     (case tape_down pj it of
        (went_down, it1) \<Rightarrow>
          if went_down then key_search pj key (tape_length it) it1 else (False, it1))"

definition tape_navigation :: "ParsedJson \<Rightarrow> navigation" where
  "tape_navigation pj =
     \<lparr>rewind = tape_rewind pj, is_object = tape_is_object, is_array = tape_is_array,
      down = tape_down pj, next_it = tape_next pj, move_to_key = tape_move_to_key pj\<rparr>"

subsection \<open>Sample pointers and documents\<close>

text \<open>
  A pointer given as a C string: its bytes, then zero bytes. \<open>zero_heap\<close> is a heap that
  holds zero bytes.
\<close>

definition c_str :: "string \<Rightarrow> nat \<Rightarrow> byte" where
  "c_str s i = (if i < length s then of_char (s ! i) else 0)"

definition zero_heap :: "nat \<Rightarrow> byte" where
  "zero_heap i = 0"

text \<open>A tape word from its tag and its payload.\<close>

definition slot :: "char \<Rightarrow> nat \<Rightarrow> 64 word" where
  "slot tag payload = push_bit 56 (of_char tag) OR of_nat payload"

text \<open>The tapes of \<^verbatim>\<open>[[1],[2]]\<close> and \<^verbatim>\<open>[]\<close>.\<close>

definition nested_arrays :: ParsedJson where
  "nested_arrays =
     \<lparr>bytecapacity = 16, depthcapacity = 8,
      tape = [slot CHR ''r'' 12, slot CHR ''['' 11, slot CHR ''['' 6, slot CHR ''l'' 0, 1,
              slot CHR '']'' 2, slot CHR ''['' 10, slot CHR ''l'' 0, 2, slot CHR '']'' 6,
              slot CHR '']'' 1, slot CHR ''r'' 12],
      string_buf = [], isvalid = True, errorcode = 0\<rparr>"

definition empty_array :: ParsedJson where
  "empty_array =
     \<lparr>bytecapacity = 16, depthcapacity = 8,
      tape = [slot CHR ''r'' 4, slot CHR ''['' 3, slot CHR '']'' 1, slot CHR ''r'' 4],
      string_buf = [], isvalid = True, errorcode = 0\<rparr>"

text \<open>
  The tapes of two objects with one member of value 1: the key of the first is the
  control character U+0004, the key of the second is U+00E9 (two bytes in UTF-8).
\<close>

definition control_key_object :: ParsedJson where
  "control_key_object =
     \<lparr>bytecapacity = 16, depthcapacity = 8,
      tape = [slot CHR ''r'' 7, slot CHR ''{'' 6, slot (CHR 0x22) 0, slot CHR ''l'' 0, 1,
              slot CHR ''}'' 1, slot CHR ''r'' 7],
      string_buf = [1, 0, 0, 0, 0x04, 0], isvalid = True, errorcode = 0\<rparr>"

definition accented_key_object :: ParsedJson where
  "accented_key_object =
     control_key_object\<lparr>string_buf := [2, 0, 0, 0, 0xC3, 0xA9, 0]\<rparr>"

text \<open>The iterator a successful construction gives.\<close>

definition the_iterator :: "construction \<Rightarrow> iterator" where
  "the_iterator c =
     (case c of
        Constructed it \<Rightarrow> it
      | _ \<Rightarrow> \<lparr>depth = 0, location = 0, tape_length = 0, current_type = 0, current_val = 0,
              depthindex = []\<rparr>)"

text \<open>
  Iterators over \<^verbatim>\<open>[[1],[2]]\<close>: as constructed, on the outer array; after
  \<^verbatim>\<open>down()\<close>, on its first element; after \<^verbatim>\<open>next()\<close>, on its last element;
  after another \<^verbatim>\<open>down()\<close>, on the 2 at depth 3.
\<close>

definition nested_root :: iterator where
  "nested_root = the_iterator (iterator_ctor nested_arrays)"

definition first_element :: iterator where
  "first_element = snd (tape_down nested_arrays nested_root)"

definition last_element :: iterator where
  "last_element = snd (tape_next nested_arrays first_element)"

definition second_inner :: iterator where
  "second_inner = snd (tape_down nested_arrays last_element)"

text \<open>The iterators that the construction gives over the other documents.\<close>

definition empty_root :: iterator where
  "empty_root = the_iterator (iterator_ctor empty_array)"

definition control_root :: iterator where
  "control_root = the_iterator (iterator_ctor control_key_object)"

definition accented_root :: iterator where
  "accented_root = the_iterator (iterator_ctor accented_key_object)"

text \<open>
  A pointer of four bytes: a slash, a backslash, and the two bytes of U+00E9 in UTF-8.
  The backslash stands before a byte above 0x7F.
\<close>

definition escaped_accent :: "nat \<Rightarrow> byte" where
  "escaped_accent = c_str [CHR ''/'', CHR 0x5C, CHR 0xC3, CHR 0xA9]"

subsection \<open>Sample platforms and inputs of the parser\<close>

text \<open>
  Instances of the parameters, used to evaluate the functions at concrete inputs. The
  sample stage 1 reports an unclosed string when the input holds an odd number of
  quote bytes; the sample stage 2 marks the document as parsed.
\<close>

definition sample_stage1 :: "instruction_set \<Rightarrow> buffer \<Rightarrow> nat \<Rightarrow> ParsedJson \<Rightarrow> int \<times> ParsedJson" where
  "sample_stage1 T buf len pj =
     (if odd (length (filter (\<lambda>c. c = 0x22) (take len (bytes buf))))
      then UNCLOSED_STRING else SUCCESS, pj)"

definition sample_stage2 :: "instruction_set \<Rightarrow> buffer \<Rightarrow> nat \<Rightarrow> ParsedJson \<Rightarrow> int \<times> ParsedJson" where
  "sample_stage2 T buf len pj = (SUCCESS, pj\<lparr>isvalid := True, errorcode := SUCCESS\<rparr>)"

definition x86_platform :: platform where
  "x86_platform =
     \<lparr>AVX2_defined = True, SSE4_2_defined = True, NEON_defined = False,
      ALLOW_SAME_PAGE_BUFFER_OVERRUN = False,
      SIMDExtension_AVX2 = 4, SIMDExtension_AVX = 2, SIMDExtension_SSE = 1,
      SIMDExtension_NEON = 8, detectHostSIMDExtensions = 0,
      pagesize = 4096, SIMDJSON_PADDING = 32,
      allocate_padded_buffer = (\<lambda>n. Some 65536),
      find_structural_bits = sample_stage1, unified_machine = sample_stage2\<rparr>"

definition arm_platform :: platform where
  "arm_platform =
     x86_platform\<lparr>AVX2_defined := False, SSE4_2_defined := False, NEON_defined := True\<rparr>"

definition fresh_document :: ParsedJson where
  "fresh_document =
     \<lparr>bytecapacity = 16, depthcapacity = 8, tape = [], string_buf = [],
      isvalid = False, errorcode = 0\<rparr>"

definition unclosed_input :: buffer where
  "unclosed_input = \<lparr>addr = 4096, bytes = [0x22, 0x61]\<rparr>"

section \<open>Properties of the parser entry points\<close>

lemma or_word_eq_0: "(w OR c) = 0 \<longleftrightarrow> w = 0 \<and> c = (0 :: 32 word)"
  by (simp add: or_eq_0_iff)

text \<open>
  C5. In a build that defines the NEON symbol and no x86 symbol, the feature test of
  \<^verbatim>\<open>find_best_supported_implementation\<close> is the bitwise OR of the detected word
  with \<^verbatim>\<open>SIMDExtension_NEON\<close>. With a nonzero constant the test holds for every
  word the detection can return, and \<^verbatim>\<open>instruction_set::neon\<close> is selected whatever
  the host supports.
\<close>

theorem neon_test_holds_for_every_host:
  assumes "\<not> AVX2_defined P" and "\<not> SSE4_2_defined P" and "NEON_defined P"
    and "SIMDExtension_NEON P \<noteq> 0"
  shows "(w OR SIMDExtension_NEON P) \<noteq> 0 \<and>
         find_best_supported_implementation (P\<lparr>detectHostSIMDExtensions := w\<rparr>) = neon"
  using assms by (simp add: find_best_supported_implementation_def or_word_eq_0)

theorem neon_test_holds_for_every_host_witness:
  "\<not> AVX2_defined arm_platform \<and> \<not> SSE4_2_defined arm_platform \<and> NEON_defined arm_platform \<and>
   SIMDExtension_NEON arm_platform \<noteq> 0 \<and>
   (0 OR SIMDExtension_NEON arm_platform) \<noteq> 0 \<and>
   find_best_supported_implementation (arm_platform\<lparr>detectHostSIMDExtensions := 0\<rparr>) = neon"
proof -
  have a: "\<not> AVX2_defined arm_platform" and b: "\<not> SSE4_2_defined arm_platform"
    and c: "NEON_defined arm_platform" and d: "SIMDExtension_NEON arm_platform \<noteq> 0"
    by (simp_all add: arm_platform_def x86_platform_def)
  from neon_test_holds_for_every_host [OF a b c d, of 0] a b c d show ?thesis by simp
qed

lemma copy_condition_stage2 [simp]:
  "copy_condition (P\<lparr>unified_machine := um\<rparr>) buf len = copy_condition P buf len"
  by (simp add: copy_condition_def)

text \<open>
  C3. When stage 1 (\<^verbatim>\<open>find_structural_bits\<close>) returns a status other than SUCCESS,
  \<^verbatim>\<open>json_parse_implementation\<close> stores that status in the document's
  \<^verbatim>\<open>errorcode\<close> and returns it. Stage 2 (\<^verbatim>\<open>unified_machine\<close>) is not among the
  calls made, and the result is the same whatever function stage 2 is.
\<close>

theorem stage1_error_short_circuits:
  assumes cap: "\<not> bytecapacity pj < len"
    and inp: "stage1_input P buf len reallocifneeded = Some b"
    and st1: "find_structural_bits P T b len pj = (st, pj1)"
    and bad: "st \<noteq> SUCCESS"
  shows "\<exists>tr. json_parse_implementation P T buf len pj reallocifneeded
                 = (st, pj1\<lparr>errorcode := st\<rparr>, tr)
              \<and> Stage1 \<in> set tr \<and> Stage2 \<notin> set tr
              \<and> (\<forall>um. json_parse_implementation (P\<lparr>unified_machine := um\<rparr>) T buf len pj
                          reallocifneeded
                        = (st, pj1\<lparr>errorcode := st\<rparr>, tr))"
proof -
  define tr0 where "tr0 = (if reallocifneeded \<and> copy_condition P buf len then [Alloc] else [])"
  have run: "run_stages (P\<lparr>unified_machine := um\<rparr>) T b len pj re tr0
               = (st, pj1\<lparr>errorcode := st\<rparr>, tr0 @ [Stage1])" for um re
    using st1 bad by (simp add: run_stages_def)
  have impl: "json_parse_implementation (P\<lparr>unified_machine := um\<rparr>) T buf len pj reallocifneeded
                = run_stages (P\<lparr>unified_machine := um\<rparr>) T b len pj
                    (reallocifneeded \<and> copy_condition P buf len) tr0" for um
    using cap inp
    by (auto simp: json_parse_implementation_def stage1_input_def tr0_def)
  have all: "json_parse_implementation (P\<lparr>unified_machine := um\<rparr>) T buf len pj reallocifneeded
               = (st, pj1\<lparr>errorcode := st\<rparr>, tr0 @ [Stage1])" for um
    by (simp only: impl run)
  from all [of "unified_machine P"]
  have one: "json_parse_implementation P T buf len pj reallocifneeded
               = (st, pj1\<lparr>errorcode := st\<rparr>, tr0 @ [Stage1])"
    by simp
  have "Stage1 \<in> set (tr0 @ [Stage1])" and "Stage2 \<notin> set (tr0 @ [Stage1])"
    by (simp_all add: tr0_def)
  with one all show ?thesis by blast
qed

theorem stage1_error_short_circuits_witness:
  "json_parse_implementation arm_platform neon unclosed_input 2 fresh_document True
     = (UNCLOSED_STRING, fresh_document\<lparr>errorcode := UNCLOSED_STRING\<rparr>, [Alloc, Stage1])"
proof -
  have cap: "\<not> bytecapacity fresh_document < 2"
    by (simp add: fresh_document_def)
  have inp: "stage1_input arm_platform unclosed_input 2 True
               = Some \<lparr>addr = 65536, bytes = [0x22, 0x61]\<rparr>"
    by (simp add: stage1_input_def copy_condition_def arm_platform_def x86_platform_def
        unclosed_input_def)
  have st1: "find_structural_bits arm_platform neon \<lparr>addr = 65536, bytes = [0x22, 0x61]\<rparr>
               2 fresh_document = (UNCLOSED_STRING, fresh_document)"
    by (simp add: arm_platform_def x86_platform_def sample_stage1_def)
  have bad: "UNCLOSED_STRING \<noteq> SUCCESS"
    by (simp add: UNCLOSED_STRING_def SUCCESS_def)
  from stage1_error_short_circuits [OF cap inp st1 bad]
  obtain tr where r: "json_parse_implementation arm_platform neon unclosed_input 2 fresh_document True
        = (UNCLOSED_STRING, fresh_document\<lparr>errorcode := UNCLOSED_STRING\<rparr>, tr)"
    and s1: "Stage1 \<in> set tr" by blast
  have "json_parse_implementation arm_platform neon unclosed_input 2 fresh_document True
        = (UNCLOSED_STRING, fresh_document\<lparr>errorcode := UNCLOSED_STRING\<rparr>, [Alloc, Stage1])"
    by (simp add: json_parse_implementation_def run_stages_def copy_condition_def
        arm_platform_def x86_platform_def unclosed_input_def fresh_document_def
        sample_stage1_def UNCLOSED_STRING_def SUCCESS_def)
  with r show ?thesis by simp
qed

text \<open>
  C4, as the code has it. When the document's \<^verbatim>\<open>bytecapacity\<close> is below
  \<^verbatim>\<open>len\<close>, \<^verbatim>\<open>json_parse\<close> makes no call (no allocation, no stage 1, no stage 2)
  and leaves the document as it was. The status is CAPACITY, except on a call that
  still goes through the dispatcher on a host for which the build holds no supported
  implementation: that call returns UNEXPECTED_ERROR.
\<close>

theorem json_parse_capacity:
  assumes "bytecapacity pj < len"
  shows "json_parse P ptr buf len pj reallocifneeded =
           (if ptr = Dispatch \<and> \<not> compiled_in P (find_best_supported_implementation P)
            then ((UNEXPECTED_ERROR, pj, []), Dispatch)
            else ((CAPACITY, pj, []),
                  (case ptr of Dispatch \<Rightarrow> Implementation (find_best_supported_implementation P)
                             | Implementation T \<Rightarrow> Implementation T)))"
  using assms
  by (cases ptr)
     (simp_all add: json_parse_def json_parse_dispatch_def json_parse_implementation_def Let_def)

theorem json_parse_capacity_witness:
  "bytecapacity fresh_document < 17 \<and>
   json_parse arm_platform Dispatch unclosed_input 17 fresh_document True
     = ((CAPACITY, fresh_document, []), Implementation neon)"
proof -
  have h: "bytecapacity fresh_document < 17" by (simp add: fresh_document_def)
  have n: "find_best_supported_implementation arm_platform = neon"
    by (simp add: find_best_supported_implementation_def arm_platform_def x86_platform_def)
  have c: "compiled_in arm_platform neon"
    by (simp add: compiled_in_def arm_platform_def x86_platform_def)
  from json_parse_capacity [OF h, of arm_platform Dispatch unclosed_input True] h n c
  show ?thesis by simp
qed

text \<open>
  C4 as stated fails: in an x86 build on a host that reports none of the extensions,
  the first call of \<^verbatim>\<open>json_parse\<close> returns UNEXPECTED_ERROR although the document's
  capacity is below the input's length.
\<close>

theorem json_parse_capacity_counterexample:
  "bytecapacity fresh_document < 17 \<and>
   fst (fst (json_parse x86_platform Dispatch unclosed_input 17 fresh_document True))
     = UNEXPECTED_ERROR \<and>
   UNEXPECTED_ERROR \<noteq> CAPACITY"
  by (simp add: json_parse_def json_parse_dispatch_def find_best_supported_implementation_def
      compiled_in_def x86_platform_def fresh_document_def UNEXPECTED_ERROR_def CAPACITY_def)

section \<open>Properties of the iterator\<close>

subsection \<open>Evaluation of the samples\<close>

lemma fresh_scopes_unfold: "replicate (numeral m) e = e # replicate (pred_numeral m) e"
  by (simp add: numeral_eq_Suc)

lemma scope_write_unfold: "(e # es)[numeral m := v] = e # es[pred_numeral m := v]"
  by (simp add: numeral_eq_Suc)

lemma for_next_numeral:
  "for_next N (numeral k) it =
     (case next_it N it of
        (moved, it1) \<Rightarrow> if moved then for_next N (pred_numeral k) it1 else (False, it1))"
  by (simp add: numeral_eq_Suc)

lemma key_search_numeral:
  "key_search pj key (numeral k) it =
     (if get_string_length pj it = length key \<and> get_string pj it = key
      then (True, at_slot pj (location it + 1) it)
      else (case tape_next pj (at_slot pj (location it + 1) it) of
              (moved, it1) \<Rightarrow>
                if moved then key_search pj key (pred_numeral k) it1
                else (False, snd (tape_up pj it1))))"
  by (simp add: numeral_eq_Suc)

lemmas sample_eval =
  the_iterator_def iterator_ctor_def isValid_def slot_def JSONVALUEMASK_def Let_def
  fresh_scopes_unfold scope_write_unfold for_next_numeral key_search_numeral
  tape_at_def at_slot_def opens_scope_def closes_scope_def tape_is_object_def tape_is_array_def
  tape_down_def tape_next_def tape_up_def get_string_length_def get_string_def
  tape_move_to_key_def tape_navigation_def c_str_def zero_heap_def

lemmas pointer_eval =
  move_to_def search_from_root_def relative_move_to.simps first_token_def key_loop.simps
  fragment_loop.simps stoi_def skip_sign_def skip_prefix_def isspace_def digit_value_def
  char_value_def not_a_digit_def while_next.simps tape_rewind.simps

lemma nested_root_eq:
  "nested_root =
     \<lparr>depth = 1, location = 1, tape_length = 12, current_type = ch CHR ''['',
      current_val = slot CHR ''['' 11,
      depthindex =
        [\<lparr>start_of_scope = 0, scope_type = ch CHR ''r''\<rparr>, \<lparr>start_of_scope = 1, scope_type = ch CHR ''[''\<rparr>,
         \<lparr>start_of_scope = 0, scope_type = 0\<rparr>, \<lparr>start_of_scope = 0, scope_type = 0\<rparr>,
         \<lparr>start_of_scope = 0, scope_type = 0\<rparr>, \<lparr>start_of_scope = 0, scope_type = 0\<rparr>,
         \<lparr>start_of_scope = 0, scope_type = 0\<rparr>, \<lparr>start_of_scope = 0, scope_type = 0\<rparr>]\<rparr>"
  by (simp add: nested_root_def sample_eval nested_arrays_def)

lemma first_element_eq:
  "first_element =
     \<lparr>depth = 2, location = 2, tape_length = 12, current_type = ch CHR ''['',
      current_val = slot CHR ''['' 6,
      depthindex =
        [\<lparr>start_of_scope = 0, scope_type = ch CHR ''r''\<rparr>, \<lparr>start_of_scope = 1, scope_type = ch CHR ''[''\<rparr>,
         \<lparr>start_of_scope = 2, scope_type = ch CHR ''[''\<rparr>, \<lparr>start_of_scope = 0, scope_type = 0\<rparr>,
         \<lparr>start_of_scope = 0, scope_type = 0\<rparr>, \<lparr>start_of_scope = 0, scope_type = 0\<rparr>,
         \<lparr>start_of_scope = 0, scope_type = 0\<rparr>, \<lparr>start_of_scope = 0, scope_type = 0\<rparr>]\<rparr>"
  unfolding first_element_def nested_root_eq
  by (simp add: sample_eval nested_arrays_def)

lemma last_element_eq:
  "last_element =
     \<lparr>depth = 2, location = 6, tape_length = 12, current_type = ch CHR ''['',
      current_val = slot CHR ''['' 10,
      depthindex =
        [\<lparr>start_of_scope = 0, scope_type = ch CHR ''r''\<rparr>, \<lparr>start_of_scope = 1, scope_type = ch CHR ''[''\<rparr>,
         \<lparr>start_of_scope = 2, scope_type = ch CHR ''[''\<rparr>, \<lparr>start_of_scope = 0, scope_type = 0\<rparr>,
         \<lparr>start_of_scope = 0, scope_type = 0\<rparr>, \<lparr>start_of_scope = 0, scope_type = 0\<rparr>,
         \<lparr>start_of_scope = 0, scope_type = 0\<rparr>, \<lparr>start_of_scope = 0, scope_type = 0\<rparr>]\<rparr>"
  unfolding last_element_def first_element_eq
  by (simp add: sample_eval nested_arrays_def)

lemma second_inner_eq:
  "second_inner =
     \<lparr>depth = 3, location = 7, tape_length = 12, current_type = ch CHR ''l'',
      current_val = slot CHR ''l'' 0,
      depthindex =
        [\<lparr>start_of_scope = 0, scope_type = ch CHR ''r''\<rparr>, \<lparr>start_of_scope = 1, scope_type = ch CHR ''[''\<rparr>,
         \<lparr>start_of_scope = 2, scope_type = ch CHR ''[''\<rparr>, \<lparr>start_of_scope = 7, scope_type = ch CHR ''[''\<rparr>,
         \<lparr>start_of_scope = 0, scope_type = 0\<rparr>, \<lparr>start_of_scope = 0, scope_type = 0\<rparr>,
         \<lparr>start_of_scope = 0, scope_type = 0\<rparr>, \<lparr>start_of_scope = 0, scope_type = 0\<rparr>]\<rparr>"
  unfolding second_inner_def last_element_eq
  by (simp add: sample_eval nested_arrays_def)

lemma control_root_eq:
  "control_root =
     \<lparr>depth = 1, location = 1, tape_length = 7, current_type = ch CHR ''{'',
      current_val = slot CHR ''{'' 6,
      depthindex =
        [\<lparr>start_of_scope = 0, scope_type = ch CHR ''r''\<rparr>, \<lparr>start_of_scope = 1, scope_type = ch CHR ''{''\<rparr>,
         \<lparr>start_of_scope = 0, scope_type = 0\<rparr>, \<lparr>start_of_scope = 0, scope_type = 0\<rparr>,
         \<lparr>start_of_scope = 0, scope_type = 0\<rparr>, \<lparr>start_of_scope = 0, scope_type = 0\<rparr>,
         \<lparr>start_of_scope = 0, scope_type = 0\<rparr>, \<lparr>start_of_scope = 0, scope_type = 0\<rparr>]\<rparr>"
  by (simp add: control_root_def sample_eval control_key_object_def)

lemma accented_root_eq: "accented_root = control_root"
  unfolding control_root_eq
  by (simp add: accented_root_def sample_eval accented_key_object_def control_key_object_def)

lemma empty_root_eq:
  "empty_root =
     \<lparr>depth = 1, location = 1, tape_length = 4, current_type = ch CHR ''['',
      current_val = slot CHR ''['' 3,
      depthindex =
        [\<lparr>start_of_scope = 0, scope_type = ch CHR ''r''\<rparr>, \<lparr>start_of_scope = 1, scope_type = ch CHR ''[''\<rparr>,
         \<lparr>start_of_scope = 0, scope_type = 0\<rparr>, \<lparr>start_of_scope = 0, scope_type = 0\<rparr>,
         \<lparr>start_of_scope = 0, scope_type = 0\<rparr>, \<lparr>start_of_scope = 0, scope_type = 0\<rparr>,
         \<lparr>start_of_scope = 0, scope_type = 0\<rparr>, \<lparr>start_of_scope = 0, scope_type = 0\<rparr>]\<rparr>"
  by (simp add: empty_root_def sample_eval empty_array_def)

subsection \<open>Construction\<close>

text \<open>
  C2, as the code has it. Constructing an iterator over a document whose
  \<^verbatim>\<open>isValid()\<close> is false throws \<^verbatim>\<open>InvalidJSON\<close>, and no iterator is produced.
  The exception is built without arguments: it is the same whatever error code the
  document recorded.
\<close>

theorem iterator_ctor_invalid:
  assumes "\<not> isValid pj"
  shows "iterator_ctor pj = Throws InvalidJSON"
  using assms by (simp add: iterator_ctor_def)

theorem iterator_ctor_invalid_witness:
  "\<not> isValid (fresh_document\<lparr>errorcode := TAPE_ERROR\<rparr>) \<and>
   iterator_ctor (fresh_document\<lparr>errorcode := TAPE_ERROR\<rparr>) = Throws InvalidJSON"
proof -
  have h: "\<not> isValid (fresh_document\<lparr>errorcode := TAPE_ERROR\<rparr>)"
    by (simp add: isValid_def fresh_document_def)
  from iterator_ctor_invalid [OF h] h show ?thesis by simp
qed

text \<open>
  C2 as stated fails: two documents that failed with different codes, TAPE_ERROR and
  DEPTH_ERROR, give the same result of the construction, so the result does not report
  the recorded code.
\<close>

theorem iterator_ctor_code_counterexample:
  "\<not> isValid (fresh_document\<lparr>errorcode := TAPE_ERROR\<rparr>) \<and>
   \<not> isValid (fresh_document\<lparr>errorcode := DEPTH_ERROR\<rparr>) \<and>
   errorcode (fresh_document\<lparr>errorcode := TAPE_ERROR\<rparr>)
     \<noteq> errorcode (fresh_document\<lparr>errorcode := DEPTH_ERROR\<rparr>) \<and>
   iterator_ctor (fresh_document\<lparr>errorcode := TAPE_ERROR\<rparr>)
     = iterator_ctor (fresh_document\<lparr>errorcode := DEPTH_ERROR\<rparr>)"
  by (simp add: iterator_ctor_def isValid_def fresh_document_def TAPE_ERROR_def DEPTH_ERROR_def)

subsection \<open>The empty pointer\<close>

text \<open>
  C6. \<^verbatim>\<open>move_to\<close> with length 0 returns true, and the iterator is where
  \<^verbatim>\<open>rewind()\<close> put it: at the root, with no further movement. This holds for every
  navigation, every memory behind the pointer and both kinds of \<^verbatim>\<open>char\<close>.
\<close>

theorem move_to_empty_pointer:
  "move_to N char_signed heap pointer 0 it = Returned True (rewind N it)"
proof -
  have frag: "fragment_loop pointer 0 i [] = Converted []" for i
    by (subst fragment_loop.simps) simp
  have rel: "relative_move_to N char_signed p 0 (rewind N it) = Returned True (rewind N it)" for p
    by (subst relative_move_to.simps) simp
  show ?thesis
    by (simp add: move_to_def search_from_root_def frag rel)
qed

subsection \<open>What a failed search writes back\<close>

text \<open>
  Whenever \<^verbatim>\<open>move_to\<close> returns false, the five members it saved by value are what
  they were before the call.
\<close>

lemma search_from_root_false:
  assumes "search_from_root N char_signed pointer len it = Returned False it'"
  shows "depth it' = depth it \<and> location it' = location it \<and>
         tape_length it' = tape_length it \<and> current_type it' = current_type it \<and>
         current_val it' = current_val it"
  using assms
  by (auto simp: search_from_root_def split: outcome.splits if_splits)

lemma move_to_false_restores_position:
  assumes "move_to N char_signed heap pointer len it = Returned False it'"
  shows "depth it' = depth it \<and> location it' = location it \<and>
         tape_length it' = tape_length it \<and> current_type it' = current_type it \<and>
         current_val it' = current_val it"
proof (cases "pointer 0 = ch CHR ''#''")
  case False
  with assms show ?thesis
    by (simp add: move_to_def search_from_root_false)
next
  case True
  show ?thesis
  proof (cases "fragment_loop pointer len 1 []")
    case (Converted new_pointer)
    with True assms show ?thesis
      by (simp add: move_to_def search_from_root_false)
  next
    case Invalid_fragment
    with True assms show ?thesis by (simp add: move_to_def)
  next
    case (Uncaught e)
    with True assms show ?thesis by (simp add: move_to_def)
  qed
qed

text \<open>
  C1. The claim is that a failed \<^verbatim>\<open>move_to\<close> returns false and leaves the visible
  state, the scope stack included, as it was. The code writes back the five members
  above and the pointer \<^verbatim>\<open>depthindex_s\<close>, not the entries of the scope array. On
  the document \<^verbatim>\<open>[[1],[2]]\<close>, with the iterator on the 2, the pointer \<^verbatim>\<open>/0/5\<close>
  finds nothing: the call returns false, and entry 3 of the scope stack, which was the
  scope that starts at slot 7, is now the scope that starts at slot 3.
\<close>

theorem move_to_failure_leaves_scope_stack_changed:
  "move_to (tape_navigation nested_arrays) True zero_heap (c_str ''/0/5'') 4 second_inner
     = Returned False
         (second_inner\<lparr>depthindex := (depthindex second_inner)
            [3 := \<lparr>start_of_scope = 3, scope_type = ch CHR ''[''\<rparr>]\<rparr>) \<and>
   depthindex second_inner ! 3 = \<lparr>start_of_scope = 7, scope_type = ch CHR ''[''\<rparr>"
  unfolding second_inner_eq
  by (simp add: pointer_eval sample_eval nested_arrays_def)

text \<open>
  The second way the same claim fails: an index token with no digit. On the same
  document the pointer \<^verbatim>\<open>/\<close> makes \<^verbatim>\<open>std::stoi\<close> throw
  \<^verbatim>\<open>std::invalid_argument\<close>; the call does not return false, and the iterator stays
  where the search had taken it.
\<close>

lemma move_to_empty_index_throws:
  "move_to (tape_navigation nested_arrays) True zero_heap (c_str ''/'') 1 second_inner
     = Thrown Invalid_argument
         (second_inner\<lparr>depth := 2, location := 2, current_type := ch CHR ''['',
                       current_val := slot CHR ''['' 6\<rparr>)"
  unfolding second_inner_eq
  by (simp add: pointer_eval sample_eval nested_arrays_def)

subsection \<open>An index beyond the range of int\<close>

lemma not_a_digit_9 [simp]: "\<not> not_a_digit s 57"
  by (simp add: not_a_digit_def char_value_def)

lemma big_token:
  "first_token char_signed True (c_str ''/99999999999'') 12 = Some (map ch ''99999999999'', 12)"
  by (simp add: first_token_def key_loop.simps c_str_def)

lemma big_stoi: "stoi 10 (map ch ''99999999999'') = Inl Out_of_range"
  by (simp add: stoi_def skip_sign_def skip_prefix_def isspace_def digit_value_def)

text \<open>
  C10. The token \<^verbatim>\<open>99999999999\<close> holds digits only, and its value is beyond the
  range of \<^verbatim>\<open>int\<close>. On an array that \<^verbatim>\<open>down()\<close> enters, for every navigation:
  \<^verbatim>\<open>std::stoi\<close> throws \<^verbatim>\<open>std::out_of_range\<close>, the exception leaves
  \<^verbatim>\<open>relative_move_to\<close> and \<^verbatim>\<open>move_to\<close>, and the iterator is left in the state
  \<^verbatim>\<open>down()\<close> produced after \<^verbatim>\<open>rewind()\<close>: nothing is written back.
\<close>

theorem index_beyond_int_throws:
  assumes obj: "\<not> is_object N (rewind N it)" and arr: "is_array N (rewind N it)"
    and dn: "down N (rewind N it) = (True, it1)"
  shows "move_to N char_signed heap (c_str ''/99999999999'') 12 it = Thrown Out_of_range it1"
proof -
  have p0: "c_str ''/99999999999'' 0 = ch CHR ''/''"
    by (simp add: c_str_def)
  have rel: "relative_move_to N char_signed (c_str ''/99999999999'') 12 (rewind N it)
               = Thrown Out_of_range it1"
    using obj arr dn big_token [of char_signed] big_stoi
    by (subst relative_move_to.simps) (simp add: p0)
  show ?thesis
    using p0 by (simp add: move_to_def search_from_root_def rel)
qed

theorem index_beyond_int_throws_witness:
  "\<not> is_object (tape_navigation nested_arrays) (rewind (tape_navigation nested_arrays) second_inner) \<and>
   is_array (tape_navigation nested_arrays) (rewind (tape_navigation nested_arrays) second_inner) \<and>
   down (tape_navigation nested_arrays) (rewind (tape_navigation nested_arrays) second_inner)
     = (True, second_inner\<lparr>depth := 2, location := 2, current_type := ch CHR ''['',
                             current_val := slot CHR ''['' 6\<rparr>) \<and>
   move_to (tape_navigation nested_arrays) True zero_heap (c_str ''/99999999999'') 12 second_inner
     = Thrown Out_of_range
         (second_inner\<lparr>depth := 2, location := 2, current_type := ch CHR ''['',
                       current_val := slot CHR ''['' 6\<rparr>) \<and>
   depth second_inner = 3 \<and> location second_inner = 7"
proof -
  let ?N = "tape_navigation nested_arrays"
  let ?it1 = "second_inner\<lparr>depth := 2, location := 2, current_type := ch CHR ''['',
                             current_val := slot CHR ''['' 6\<rparr>"
  have obj: "\<not> is_object ?N (rewind ?N second_inner)"
    unfolding second_inner_eq
    by (simp add: sample_eval tape_rewind.simps nested_arrays_def)
  have arr: "is_array ?N (rewind ?N second_inner)"
    unfolding second_inner_eq
    by (simp add: sample_eval tape_rewind.simps nested_arrays_def)
  have dn: "down ?N (rewind ?N second_inner) = (True, ?it1)"
    unfolding second_inner_eq
    by (simp add: sample_eval tape_rewind.simps nested_arrays_def)
  have loc: "depth second_inner = 3 \<and> location second_inner = 7"
    unfolding second_inner_eq by simp
  from index_beyond_int_throws [OF obj arr dn, of True zero_heap] obj arr dn loc
  show ?thesis by simp
qed

subsection \<open>Tokens of an array\<close>

text \<open>
  When \<open>n\<close> calls of \<^verbatim>\<open>next()\<close> succeed and the following one fails, the loop
  \<^verbatim>\<open>while(next());\<close> ends there.
\<close>

lemma while_next_reaches:
  assumes "for_next N n it1 = (True, it2)" and "next_it N it2 = (False, it3)"
  shows "while_next N it1 = Some it3"
  using assms
proof (induction n arbitrary: it1)
  case 0
  then show ?case by (subst while_next.simps) simp
next
  case (Suc n)
  obtain moved x where nx: "next_it N it1 = (moved, x)" by (cases "next_it N it1")
  with Suc.prems(1) have m: "moved" and f: "for_next N n x = (True, it2)"
    by (auto split: if_splits)
  from Suc.IH [OF f Suc.prems(2)] have "while_next N x = Some it3" .
  with nx m show ?case by (subst while_next.simps) simp
qed

lemma digit_is_plain:
  assumes "\<not> not_a_digit s c"
  shows "c \<noteq> ch CHR ''~''" and "c \<noteq> 0x5C"
  using assms by (auto simp: not_a_digit_def char_value_def split: if_splits)

text \<open>
  In an array the loop returns false at the first byte of the token that is not a
  digit.
\<close>

lemma key_loop_array_rejects:
  assumes "off \<le> k" and "k < len"
    and "\<forall>j. off \<le> j \<and> j \<le> k \<longrightarrow> pointer j \<noteq> ch CHR ''/''"
    and "not_a_digit s (pointer k)"
  shows "key_loop s True pointer len off key = None"
  using assms
proof (induction "k - off" arbitrary: off key)
  case 0
  then have "off = k" by simp
  with 0 show ?case
    by (subst key_loop.simps) simp
next
  case (Suc d)
  then have lt: "off < k" and offlen: "off < len" by simp_all
  from Suc.prems have ns: "pointer off \<noteq> ch CHR ''/''" by simp
  show ?case
  proof (cases "not_a_digit s (pointer off)")
    case True
    with offlen ns show ?thesis
      by (subst key_loop.simps) simp
  next
    case False
    have rest: "key_loop s True pointer len (off + 1) key' = None" for key'
    proof (rule Suc.hyps(1))
      show "d = k - (off + 1)" using Suc.hyps(2) by simp
      show "off + 1 \<le> k" using lt by simp
      show "k < len" by fact
      show "\<forall>j. off + 1 \<le> j \<and> j \<le> k \<longrightarrow> pointer j \<noteq> ch CHR ''/''"
        using Suc.prems(3) by simp
      show "not_a_digit s (pointer k)" by fact
    qed
    from digit_is_plain [OF False] False offlen ns rest show ?thesis
      by (subst key_loop.simps) simp
  qed
qed

text \<open>
  C8, as the code has it. In an array context (\<^verbatim>\<open>is_array()\<close> true, and the pointer
  starts with a slash):
  \<^item> when the pointer is exactly \<^verbatim>\<open>/-\<close> and \<^verbatim>\<open>down()\<close> fails (the array is
    empty), the call returns false;
  \<^item> when the pointer is exactly \<^verbatim>\<open>/-\<close>, \<^verbatim>\<open>down()\<close> succeeds, \<open>n\<close> calls of
    \<^verbatim>\<open>next()\<close> succeed and the one after fails, the call returns true with the
    iterator where that last call left it: on the last element;
  \<^item> when the first token holds a byte that is not a digit (index \<open>k\<close>, with no slash
    up to it) and the pointer is not exactly \<^verbatim>\<open>/-\<close>, the call returns false and
    the iterator has not moved. This covers a \<^verbatim>\<open>-\<close> that more text follows.
\<close>

theorem array_token:
  assumes arr: "is_array N it" and slash: "pointer 0 = ch CHR ''/''"
  shows
    "(\<not> is_object N it \<and> len = 2 \<and> pointer 1 = ch CHR ''-'' \<and> down N it = (False, it1)
        \<longrightarrow> relative_move_to N char_signed pointer len it = Returned False it1) \<and>
     (\<not> is_object N it \<and> len = 2 \<and> pointer 1 = ch CHR ''-'' \<and> down N it = (True, it1) \<and>
      for_next N n it1 = (True, it2) \<and> next_it N it2 = (False, it3)
        \<longrightarrow> relative_move_to N char_signed pointer len it = Returned True it3) \<and>
     (1 \<le> k \<and> k < len \<and> (\<forall>j. 1 \<le> j \<and> j \<le> k \<longrightarrow> pointer j \<noteq> ch CHR ''/'') \<and>
      not_a_digit char_signed (pointer k) \<and> \<not> (len = 2 \<and> pointer 1 = ch CHR ''-'')
        \<longrightarrow> relative_move_to N char_signed pointer len it = Returned False it)"
proof (intro conjI impI)
  assume h: "\<not> is_object N it \<and> len = 2 \<and> pointer 1 = ch CHR ''-'' \<and> down N it = (False, it1)"
  with arr slash show "relative_move_to N char_signed pointer len it = Returned False it1"
    by (subst relative_move_to.simps) (simp add: first_token_def)
next
  assume h: "\<not> is_object N it \<and> len = 2 \<and> pointer 1 = ch CHR ''-'' \<and> down N it = (True, it1) \<and>
      for_next N n it1 = (True, it2) \<and> next_it N it2 = (False, it3)"
  then have "while_next N it1 = Some it3" by (auto intro: while_next_reaches)
  with h arr slash show "relative_move_to N char_signed pointer len it = Returned True it3"
    by (subst relative_move_to.simps) (simp add: first_token_def)
next
  assume h: "1 \<le> k \<and> k < len \<and> (\<forall>j. 1 \<le> j \<and> j \<le> k \<longrightarrow> pointer j \<noteq> ch CHR ''/'') \<and>
      not_a_digit char_signed (pointer k) \<and> \<not> (len = 2 \<and> pointer 1 = ch CHR ''-'')"
  then have "key_loop char_signed True pointer len 1 [] = None"
    by (intro key_loop_array_rejects [of 1 k]) simp_all
  with h arr have "first_token char_signed (is_array N it) pointer len = None"
    by (auto simp: first_token_def)
  with h slash show "relative_move_to N char_signed pointer len it = Returned False it"
    by (subst relative_move_to.simps) simp
qed

theorem array_token_witness:
  "is_array (tape_navigation nested_arrays) nested_root \<and>
   \<not> is_object (tape_navigation nested_arrays) nested_root \<and>
   c_str ''/-'' 0 = ch CHR ''/'' \<and> c_str ''/-'' 1 = ch CHR ''-'' \<and>
   down (tape_navigation nested_arrays) nested_root = (True, first_element) \<and>
   for_next (tape_navigation nested_arrays) 1 first_element = (True, last_element) \<and>
   next_it (tape_navigation nested_arrays) last_element = (False, last_element) \<and>
   relative_move_to (tape_navigation nested_arrays) True (c_str ''/-'') 2 nested_root
     = Returned True last_element \<and>
   c_str ''/1x'' 0 = ch CHR ''/'' \<and> c_str ''/1x'' 1 \<noteq> ch CHR ''/'' \<and>
   c_str ''/1x'' 2 \<noteq> ch CHR ''/'' \<and> not_a_digit True (c_str ''/1x'' 2) \<and>
   relative_move_to (tape_navigation nested_arrays) True (c_str ''/1x'') 3 nested_root
     = Returned False nested_root"
proof -
  let ?N = "tape_navigation nested_arrays"
  have arr: "is_array ?N nested_root" and obj: "\<not> is_object ?N nested_root"
    unfolding nested_root_eq by (simp_all add: sample_eval)
  have dn: "down ?N nested_root = (True, first_element)"
    unfolding nested_root_eq first_element_eq by (simp add: sample_eval nested_arrays_def)
  have fn: "for_next ?N 1 first_element = (True, last_element)"
    unfolding first_element_eq last_element_eq by (simp add: sample_eval nested_arrays_def)
  have nx: "next_it ?N last_element = (False, last_element)"
    unfolding last_element_eq by (simp add: sample_eval nested_arrays_def)
  have p: "c_str ''/-'' 0 = ch CHR ''/''" "c_str ''/-'' 1 = ch CHR ''-''"
    by (simp_all add: c_str_def)
  have q: "c_str ''/1x'' 0 = ch CHR ''/''" "c_str ''/1x'' 1 \<noteq> ch CHR ''/''"
    "c_str ''/1x'' 2 \<noteq> ch CHR ''/''" "not_a_digit True (c_str ''/1x'' 2)"
    by (simp_all add: c_str_def not_a_digit_def char_value_def)
  have all: "\<forall>j. 1 \<le> j \<and> j \<le> 2 \<longrightarrow> c_str ''/1x'' j \<noteq> ch CHR ''/''"
  proof (intro allI impI)
    fix j :: nat assume "1 \<le> j \<and> j \<le> 2"
    then have "j = 1 \<or> j = 2" by arith
    with q show "c_str ''/1x'' j \<noteq> ch CHR ''/''" by auto
  qed
  from array_token [where N = "?N" and it = nested_root and pointer = "c_str ''/-''"
      and len = 2 and char_signed = True and ?it1.0 = first_element and n = 1
      and ?it2.0 = last_element and ?it3.0 = last_element, OF arr p(1)]
    obj p dn fn nx
  have a: "relative_move_to ?N True (c_str ''/-'') 2 nested_root = Returned True last_element"
    by simp
  from array_token [where N = "?N" and it = nested_root and pointer = "c_str ''/1x''"
      and len = 3 and char_signed = True and k = 2, OF arr q(1)] q all
  have b: "relative_move_to ?N True (c_str ''/1x'') 3 nested_root = Returned False nested_root"
    by simp
  from arr obj p dn fn nx a q b show ?thesis by simp
qed

text \<open>
  C8 as stated fails: on the empty array \<^verbatim>\<open>[]\<close> the pointer \<^verbatim>\<open>/-\<close> is resolved
  in an array context and the call returns false; and on \<^verbatim>\<open>[[1],[2]]\<close> the pointer
  \<^verbatim>\<open>/-/0\<close>, whose first token is \<^verbatim>\<open>-\<close>, returns false as well.
\<close>

theorem array_token_counterexample:
  "is_array (tape_navigation empty_array) empty_root \<and>
   relative_move_to (tape_navigation empty_array) True (c_str ''/-'') 2 empty_root
     = Returned False empty_root \<and>
   is_array (tape_navigation nested_arrays) nested_root \<and>
   relative_move_to (tape_navigation nested_arrays) True (c_str ''/-/0'') 4 nested_root
     = Returned False nested_root"
  unfolding empty_root_eq nested_root_eq
  by (simp add: pointer_eval sample_eval empty_array_def nested_arrays_def)

subsection \<open>Escapes in a key\<close>

text \<open>
  A byte above 0x7F is negative as a signed \<^verbatim>\<open>char\<close>, so it passes the test
  \<^verbatim>\<open>pointer[offset+1] <= 0x1F\<close>: the loop takes a backslash before it as an escape.
  As an unsigned \<^verbatim>\<open>char\<close> it fails the test, and the loop returns false.
\<close>

lemma high_byte_is_negative:
  assumes "0x80 \<le> (c :: byte)"
  shows "char_value True c \<le> 0x1F"
proof -
  from assms have "128 \<le> uint c" by (simp add: word_le_def)
  moreover have "uint c < 256" using uint_bounded [of c] by simp
  ultimately have "uint c div 128 = 1" by presburger
  then have "sint c = uint c - 256"
    by (simp add: sint_uint signed_take_bit_eq_take_bit_minus bit_iff_odd take_bit_eq_mod)
  with \<open>uint c < 256\<close> show ?thesis by (simp add: char_value_def)
qed

lemma escape_of_high_byte_signed:
  assumes "offset < len" and "pointer offset = 0x5C" and "0x80 \<le> pointer (offset + 1)"
  shows "key_loop True False pointer len offset key
           = key_loop True False pointer len (offset + 2) (key @ [pointer (offset + 1)])"
  using assms high_byte_is_negative [OF assms(3)]
  by (subst key_loop.simps) simp

lemma escape_of_high_byte_unsigned:
  assumes "offset < len" and "pointer offset = 0x5C" and "0x80 \<le> pointer (offset + 1)"
  shows "key_loop False False pointer len offset key = None"
proof -
  from assms(3) have "128 \<le> uint (pointer (offset + 1))" by (simp add: word_le_def)
  moreover from this have "pointer (offset + 1) \<noteq> 0x5C" "pointer (offset + 1) \<noteq> 0x22" by auto
  ultimately show ?thesis
    using assms(1,2) by (subst key_loop.simps) (simp add: char_value_def)
qed

text \<open>
  C7. The claim is that a backslash is accepted before a backslash, a double quote or
  a byte up to 0x1F only, and that every other escape makes the lookup return false.
  The code tests \<^verbatim>\<open>pointer[offset+1] <= 0x1F\<close> on a plain \<^verbatim>\<open>char\<close>. Where
  \<^verbatim>\<open>char\<close> is signed, every byte above 0x7F is negative and passes the test: on the
  object whose key is U+00E9, the pointer made of a slash, a backslash and the two bytes
  of that key is decoded to the key, and \<^verbatim>\<open>move_to\<close> returns true on the value 1.
\<close>

theorem escaped_high_byte_is_accepted:
  "key_loop True False escaped_accent 4 1 [] = Some ([0xC3, 0xA9], 4) \<and>
   move_to (tape_navigation accented_key_object) True zero_heap escaped_accent 4 accented_root
     = Returned True
         (accented_root\<lparr>depth := 2, location := 3, current_type := ch CHR ''l'',
            current_val := slot CHR ''l'' 0,
            depthindex := (depthindex accented_root)
              [2 := \<lparr>start_of_scope = 2, scope_type = ch CHR ''{''\<rparr>]\<rparr>)"
  unfolding accented_root_eq control_root_eq
  by (simp add: pointer_eval sample_eval escaped_accent_def accented_key_object_def
      control_key_object_def)

text \<open>Where \<^verbatim>\<open>char\<close> is unsigned, the same call returns false, as the claim says.\<close>

lemma escaped_high_byte_unsigned:
  "move_to (tape_navigation accented_key_object) False zero_heap escaped_accent 4 accented_root
     = Returned False accented_root"
  unfolding accented_root_eq control_root_eq
  by (simp add: pointer_eval sample_eval escaped_accent_def accented_key_object_def
      control_key_object_def)

subsection \<open>Fragments\<close>

text \<open>
  A pair of two hexadecimal digits is converted to its value. The loop stores it as one
  byte, behind a backslash when it is a backslash, a double quote or at most 0x1F.
\<close>

lemma hex_digit_plain:
  assumes "digit_value c = Some a"
  shows "\<not> isspace c" and "c \<noteq> ch CHR ''-''" and "c \<noteq> ch CHR ''+''"
  using assms
  by (auto simp: digit_value_def isspace_def word_le_nat_alt split: if_splits)

lemma stoi_hex_pair:
  assumes "digit_value h1 = Some a" and "a < 16" and "digit_value h2 = Some b" and "b < 16"
  shows "stoi 16 [h1, h2] = Inr (int (16 * a + b))"
  using assms hex_digit_plain [OF assms(1)]
  by (simp add: stoi_def skip_sign_def skip_prefix_def)

lemma fragment_valid_pair:
  assumes "i < len" and "pointer i = ch CHR ''%''"
    and "digit_value (pointer (i + 1)) = Some a" and "a < 16"
    and "digit_value (pointer (i + 2)) = Some b" and "b < 16"
  shows "fragment_loop pointer len i new_pointer =
           fragment_loop pointer len (i + 3)
             (new_pointer
              @ (if 16 * a + b = 0x5C \<or> 16 * a + b = 0x22 \<or> 16 * a + b \<le> 0x1F
                 then [0x5C] else [])
              @ [of_nat (16 * a + b)])"
proof -
  have "stoi 16 [pointer (i + 1), pointer (i + 2)] = Inr (int (16 * a + b))"
    using assms by (intro stoi_hex_pair)
  with assms(1,2) show ?thesis
    by (subst fragment_loop.simps) (simp del: of_nat_add of_nat_mult)
qed

text \<open>
  C9. The claim is that an invalid pair after \<^verbatim>\<open>%\<close> makes \<^verbatim>\<open>move_to\<close> return
  false. The code converts the two bytes with \<^verbatim>\<open>std::stoi\<close>, which converts the
  longest prefix that is a number and throws only when there is none. In \<^verbatim>\<open>#/%4z\<close>
  the pair \<^verbatim>\<open>4z\<close> is no hexadecimal pair, yet it is converted to the byte 0x04, a
  backslash is put before it, and on the object whose key is U+0004 \<^verbatim>\<open>move_to\<close>
  returns true on the value 1.
\<close>

theorem half_hex_pair_is_accepted:
  "stoi 16 (map ch ''4z'') = Inr 4 \<and>
   fragment_loop (c_str ''#/%4z'') 5 1 [] = Converted [ch CHR ''/'', 0x5C, 0x04] \<and>
   move_to (tape_navigation control_key_object) True zero_heap (c_str ''#/%4z'') 5 control_root
     = Returned True
         (control_root\<lparr>depth := 2, location := 3, current_type := ch CHR ''l'',
            current_val := slot CHR ''l'' 0,
            depthindex := (depthindex control_root)
              [2 := \<lparr>start_of_scope = 2, scope_type = ch CHR ''{''\<rparr>]\<rparr>)"
  unfolding control_root_eq
  by (simp add: pointer_eval sample_eval control_key_object_def)

text \<open>A pair with no leading digit is rejected: \<^verbatim>\<open>move_to\<close> returns false.\<close>

lemma invalid_hex_pair_is_rejected:
  "move_to (tape_navigation control_key_object) True zero_heap (c_str ''#/%zz'') 5 control_root
     = Returned False control_root"
  unfolding control_root_eq
  by (simp add: pointer_eval sample_eval control_key_object_def)

end
